theory Spec2Isabelle
  imports Main
begin

section \<open>Predefined configuration variables of devspace\<close>

text \<open>
  A shallow embedding of \<^verbatim>\<open>pkg/devspace/config/configutil/predefined_vars.go\<close>:
  the registry \<^verbatim>\<open>PredefinedVars\<close>, the eager pass \<^verbatim>\<open>fillPredefinedVars\<close> and the
  accessor \<^verbatim>\<open>getPredefinedVar\<close>.

  Go strings are byte sequences, modelled as \<^typ>\<open>string\<close>. A Go result tuple
  \<^verbatim>\<open>(v, err)\<close> is a HOL tuple whose last component is an \<^typ>\<open>'a option\<close>
  (\<^term>\<open>None\<close> is \<^verbatim>\<open>nil\<close>); a \<^verbatim>\<open>*string\<close> is a \<^typ>\<open>string option\<close>. A run-time
  panic is a result of its own.
\<close>

subsection \<open>Errors and panics\<close>

datatype numErr = ErrSyntax | ErrRange

text \<open>
  Error values: \<open>External\<close> is an error returned by a collaborator, \<open>NumError\<close> is
  \<^verbatim>\<open>*strconv.NumError{Func, Num, Err}\<close>, and \<open>New\<close>, \<open>Wrap\<close>, \<open>Errorf\<close> are the constructors
  of \<^verbatim>\<open>github.com/pkg/errors\<close>, kept with their arguments as the source passes them.
\<close>

datatype error =
    External string
  | NumError string string numErr
  | New string
  | Wrap error string
  | Errorf string "arg list"
and arg = S string | D int | V error

datatype panic =
    IndexOutOfRange int nat
  | SliceBoundsOutOfRange nat nat

datatype 'a outcome = Panic panic | Return 'a

subsection \<open>Library functions used by the source\<close>

text \<open>
  \<^verbatim>\<open>strings.ToUpper\<close>: a string of ASCII bytes is mapped byte by byte (\<^verbatim>\<open>c -= 'a' - 'A'\<close>
  for \<^verbatim>\<open>'a' <= c <= 'z'\<close>); any other string goes through the Unicode mapping, which is a
  parameter here.
\<close>

definition isASCII :: "string \<Rightarrow> bool" where
  "isASCII s = (\<forall>c \<in> set s. (of_char c :: nat) < 128)"

definition upperByte :: "char \<Rightarrow> char" where
  "upperByte c =
     (if (97::nat) \<le> of_char c \<and> (of_char c :: nat) \<le> 122
      then char_of ((of_char c :: nat) - 32) else c)"

definition strings_ToUpper :: "(string \<Rightarrow> string) \<Rightarrow> string \<Rightarrow> string" where
  "strings_ToUpper unicodeUpper s = (if isASCII s then map upperByte s else unicodeUpper s)"

text \<open>\<^verbatim>\<open>strings.HasPrefix(s, prefix)\<close>.\<close>

definition strings_HasPrefix :: "string \<Rightarrow> string \<Rightarrow> bool" where
  "strings_HasPrefix s pre = (length pre \<le> length s \<and> take (length pre) s = pre)"

text \<open>
  \<^verbatim>\<open>strconv.Atoi\<close> for a 64-bit \<^verbatim>\<open>int\<close>: an optional sign, then at least one decimal
  digit; a value outside \<open>[-2^63, 2^63 - 1]\<close> is a range error whose value is the nearest bound.
\<close>

definition isDigit :: "char \<Rightarrow> bool" where
  "isDigit c = ((48::nat) \<le> of_char c \<and> (of_char c :: nat) \<le> 57)"

fun digitsValue :: "int \<Rightarrow> string \<Rightarrow> int" where
  "digitsValue n [] = n"
| "digitsValue n (c # cs) = digitsValue (n * 10 + (of_char c - 48)) cs"

definition strconv_Atoi :: "string \<Rightarrow> int \<times> error option" where
  "strconv_Atoi s =
     (let neg = (s \<noteq> [] \<and> hd s = CHR ''-'');
          ds = (if s \<noteq> [] \<and> (hd s = CHR ''-'' \<or> hd s = CHR ''+'') then tl s else s)
      in if ds = [] \<or> \<not> list_all isDigit ds then (0, Some (NumError ''Atoi'' s ErrSyntax))
         else let n = digitsValue 0 ds
              in if neg then (if 2 ^ 63 < n then (- (2 ^ 63), Some (NumError ''Atoi'' s ErrRange))
                              else (- n, None))
                 else (if 2 ^ 63 \<le> n then (2 ^ 63 - 1, Some (NumError ''Atoi'' s ErrRange))
                       else (n, None)))"

text \<open>Arithmetic on a 64-bit \<^verbatim>\<open>int\<close> wraps around.\<close>

definition wrap64 :: "int \<Rightarrow> int" where
  "wrap64 x = (x + 2 ^ 63) mod 2 ^ 64 - 2 ^ 63"

text \<open>\<^verbatim>\<open>strconv.FormatInt(i, 10)\<close>.\<close>

fun formatNat :: "nat \<Rightarrow> string" where
  "formatNat n =
     (if n < 10 then [''0123456789'' ! n]
      else formatNat (n div 10) @ [''0123456789'' ! (n mod 10)])"

definition strconv_FormatInt10 :: "int \<Rightarrow> string" where
  "strconv_FormatInt10 i = (if i < 0 then CHR ''-'' # formatNat (nat (- i)) else formatNat (nat i))"

text \<open>
  \<^verbatim>\<open>fmt.Sprintf\<close> for the formats of this file, whose only verb is \<^verbatim>\<open>%s\<close> and which receive
  one string per verb.
\<close>

fun fmt_Sprintf :: "string \<Rightarrow> string list \<Rightarrow> string" where
  "fmt_Sprintf [] as = []"
| "fmt_Sprintf [c] as = [c]"
| "fmt_Sprintf (c # d # fs) as =
     (if c = CHR ''%'' \<and> d = CHR ''s'' \<and> as \<noteq> [] then hd as @ fmt_Sprintf fs (tl as)
      else c # fmt_Sprintf (d # fs) as)"

subsection \<open>External collaborators\<close>

text \<open>
  The cloud provider store as the source reads it: a provider has a token and a map from
  space id to a cached space (\<open>Spaces\<close> may be a \<^verbatim>\<open>nil\<close> map, and a space id may be bound to
  no entry); a cached space has a name, an ordered list of domains and the namespace of its
  service account. The pointers inside a cached space are taken to be non-\<^verbatim>\<open>nil\<close>.
\<close>

record domain =
  URL :: string

record space =
  Name :: string
  Domains :: "domain list"

record serviceAccount =
  Namespace :: string

record spaceCache =
  Space :: space
  ServiceAccount :: serviceAccount

record provider =
  Token :: string
  Spaces :: "(int \<rightharpoonup> spaceCache) option"

record providerConfig =
  Default :: string
  Providers :: "(string \<times> provider) list"

text \<open>
  Everything the source file calls but does not define, with the Go result tuples:
  \<^verbatim>\<open>kubeconfig.GetCurrentContext\<close>, \<^verbatim>\<open>kubeconfig.IsCloudSpace\<close>, \<^verbatim>\<open>kubeconfig.GetSpaceID\<close>,
  \<^verbatim>\<open>cloudconfig.ParseProviderConfig\<close>, \<^verbatim>\<open>cloudconfig.GetProvider\<close>,
  \<^verbatim>\<open>cloudconfig.DevSpaceCloudProviderName\<close>, \<^verbatim>\<open>cloudtoken.GetAccountName\<close>,
  \<^verbatim>\<open>git.NewGitRepository(".", "").GetHash\<close>, \<^verbatim>\<open>randutil.GenerateRandomString\<close>,
  \<^verbatim>\<open>time.Now().Unix\<close>, \<^verbatim>\<open>ansi.Color\<close> and the Unicode part of \<^verbatim>\<open>strings.ToUpper\<close>.
  One value of this record is the external world as one call of the source sees it.
\<close>

record env =
  GetCurrentContext :: "string \<times> error option"
  IsCloudSpace :: "string \<Rightarrow> bool \<times> error option"
  GetSpaceID :: "string \<Rightarrow> int \<times> string \<times> error option"
  ParseProviderConfig :: "providerConfig \<times> error option"
  GetProvider :: "providerConfig \<Rightarrow> string \<Rightarrow> provider option"
  DevSpaceCloudProviderName :: string
  GetAccountName :: "string \<Rightarrow> string \<times> error option"
  GetHash :: "string \<times> error option"
  GenerateRandomString :: "nat \<Rightarrow> string \<times> error option"
  time_Now_Unix :: int
  ansi_Color :: "string \<Rightarrow> string \<Rightarrow> string"
  unicode_ToUpper :: "string \<Rightarrow> string"

subsection \<open>The resolvers\<close>

text \<open>
  A resolver returns \<^verbatim>\<open>(*string, error)\<close>: \<open>(Some v, None)\<close> is a value, \<open>(None, None)\<close> is
  ``not available'' and \<open>(None, Some e)\<close> is a hard error.
\<close>

type_synonym fillResult = "(string option \<times> error option) outcome"

definition Fill_DEVSPACE_RANDOM :: "env \<Rightarrow> string \<Rightarrow> fillResult" where
  "Fill_DEVSPACE_RANDOM env kubeContext =
     (case GenerateRandomString env 6 of
        (ret, Some err) \<Rightarrow> Return (None, Some err)
      | (ret, None) \<Rightarrow> Return (Some ret, None))"

definition Fill_DEVSPACE_TIMESTAMP :: "env \<Rightarrow> string \<Rightarrow> fillResult" where
  "Fill_DEVSPACE_TIMESTAMP env kubeContext =
     Return (Some (strconv_FormatInt10 (time_Now_Unix env)), None)"

text \<open>\<^verbatim>\<open>hash[:8]\<close> panics when the hash has fewer than 8 bytes.\<close>

definition Fill_DEVSPACE_GIT_COMMIT :: "env \<Rightarrow> string \<Rightarrow> fillResult" where
  "Fill_DEVSPACE_GIT_COMMIT env kubeContext =
     (case GetHash env of
        (hash, Some err) \<Rightarrow> Return (None, None)
      | (hash, None) \<Rightarrow>
          if length hash < 8 then Panic (SliceBoundsOutOfRange 8 (length hash))
          else Return (Some (take 8 hash), None))"

definition Fill_DEVSPACE_SPACE :: "env \<Rightarrow> string \<Rightarrow> fillResult" where
  "Fill_DEVSPACE_SPACE env overrideKubeContext =
     (case GetCurrentContext env of
        (currentContext, Some err) \<Rightarrow> Return (None, None)
      | (currentContext, None) \<Rightarrow>
          let kubeContext =
                (if overrideKubeContext \<noteq> [] then overrideKubeContext else currentContext)
          in (case IsCloudSpace env kubeContext of
               (isSpace, err) \<Rightarrow>
                 if err \<noteq> None \<or> \<not> isSpace then Return (None, None)
                 else (case GetSpaceID env kubeContext of
                        (spaceID, providerName, Some err) \<Rightarrow> Return (None, Some err)
                      | (spaceID, providerName, None) \<Rightarrow>
                          (case ParseProviderConfig env of
                             (cloudConfigData, Some err) \<Rightarrow> Return (None, None)
                           | (cloudConfigData, None) \<Rightarrow>
                               (case GetProvider env cloudConfigData providerName of
                                  None \<Rightarrow> Return (None, None)
                                | Some provider \<Rightarrow>
                                    (case Spaces provider of
                                       None \<Rightarrow> Return (None, None)
                                     | Some spaces \<Rightarrow>
                                         (case spaces spaceID of
                                            None \<Rightarrow> Return (None, None)
                                          | Some sc \<Rightarrow> Return (Some (Name (Space sc)), None))))))))"

definition Fill_DEVSPACE_SPACE_NAMESPACE :: "env \<Rightarrow> string \<Rightarrow> fillResult" where
  "Fill_DEVSPACE_SPACE_NAMESPACE env overrideKubeContext =
     (case GetCurrentContext env of
        (currentContext, Some err) \<Rightarrow> Return (None, None)
      | (currentContext, None) \<Rightarrow>
          let kubeContext =
                (if overrideKubeContext \<noteq> [] then overrideKubeContext else currentContext)
          in (case IsCloudSpace env kubeContext of
               (isSpace, err) \<Rightarrow>
                 if err \<noteq> None \<or> \<not> isSpace then Return (None, None)
                 else (case GetSpaceID env kubeContext of
                        (spaceID, providerName, Some err) \<Rightarrow> Return (None, Some err)
                      | (spaceID, providerName, None) \<Rightarrow>
                          (case ParseProviderConfig env of
                             (cloudConfigData, Some err) \<Rightarrow> Return (None, None)
                           | (cloudConfigData, None) \<Rightarrow>
                               (case GetProvider env cloudConfigData providerName of
                                  None \<Rightarrow> Return (None, None)
                                | Some provider \<Rightarrow>
                                    (case Spaces provider of
                                       None \<Rightarrow> Return (None, None)
                                     | Some spaces \<Rightarrow>
                                         (case spaces spaceID of
                                            None \<Rightarrow> Return (None, None)
                                          | Some sc \<Rightarrow>
                                              Return (Some (Namespace (ServiceAccount sc)), None))))))))"

definition Fill_DEVSPACE_USERNAME :: "env \<Rightarrow> string \<Rightarrow> fillResult" where
  "Fill_DEVSPACE_USERNAME env overrideKubeContext =
     (case GetCurrentContext env of
        (currentContext, Some err) \<Rightarrow> Return (None, Some err)
      | (currentContext, None) \<Rightarrow>
          let kubeContext =
                (if overrideKubeContext \<noteq> [] then overrideKubeContext else currentContext)
          in (case ParseProviderConfig env of
               (cloudConfigData, Some err) \<Rightarrow> Return (None, Some err)
             | (cloudConfigData, None) \<Rightarrow>
                 let providerName =
                       (case GetSpaceID env kubeContext of
                          (spaceID, name, Some err) \<Rightarrow>
                            if Default cloudConfigData \<noteq> [] then Default cloudConfigData
                            else DevSpaceCloudProviderName env
                        | (spaceID, name, None) \<Rightarrow> name)
                 in (case GetProvider env cloudConfigData providerName of
                      None \<Rightarrow> Return (None, None)
                    | Some provider \<Rightarrow>
                        if Token provider = [] then Return (None, None)
                        else (case GetAccountName env (Token provider) of
                               (accountName, Some err) \<Rightarrow> Return (None, None)
                             | (accountName, None) \<Rightarrow> Return (Some accountName, None)))))"

subsection \<open>The registry\<close>

record predefinedVarDefinition =
  Value :: "string option"
  ErrorMessage :: string
  Fill :: "env \<Rightarrow> string \<Rightarrow> fillResult"

type_synonym registry = "string \<rightharpoonup> predefinedVarDefinition"

definition notASpaceMessage :: "env \<Rightarrow> string \<Rightarrow> string" where
  "notASpaceMessage env var =
     fmt_Sprintf (''Current context is not a space, but predefined var '' @ var @
         '' is used.\<newline>\<newline>Please run: \<newline>- `%s` to create a new space\<newline>- `%s` to use an existing space\<newline>- `%s` to list existing spaces'')
       [ansi_Color env ''devspace create space [NAME]'' ''white+b'',
        ansi_Color env ''devspace use space [NAME]'' ''white+b'',
        ansi_Color env ''devspace list spaces'' ''white+b'']"

definition notLoggedInMessage :: "env \<Rightarrow> string" where
  "notLoggedInMessage env =
     fmt_Sprintf ''You are not logged into DevSpace Cloud, but predefined var DEVSPACE_USERNAME is used.\<newline>\<newline>Please run: \<newline>- `%s` to login into devspace cloud. Alternatively you can also remove the variable ${DEVSPACE_USERNAME} from your config''
       [ansi_Color env ''devspace login'' ''white+b'']"

text \<open>
  The package-level map \<^verbatim>\<open>PredefinedVars\<close> as it is initialised: every \<open>Value\<close> is \<^verbatim>\<open>nil\<close>,
  and the two resolvers without an \<open>ErrorMessage\<close> have the empty string.
\<close>

definition PredefinedVars :: "env \<Rightarrow> registry" where
  "PredefinedVars env = map_of
     [(''DEVSPACE_RANDOM'',
         \<lparr>Value = None, ErrorMessage = [], Fill = Fill_DEVSPACE_RANDOM\<rparr>),
      (''DEVSPACE_TIMESTAMP'',
         \<lparr>Value = None, ErrorMessage = [], Fill = Fill_DEVSPACE_TIMESTAMP\<rparr>),
      (''DEVSPACE_GIT_COMMIT'',
         \<lparr>Value = None,
          ErrorMessage = ''No git repository found, but predefined var DEVSPACE_GIT_COMMIT is used'',
          Fill = Fill_DEVSPACE_GIT_COMMIT\<rparr>),
      (''DEVSPACE_SPACE'',
         \<lparr>Value = None, ErrorMessage = notASpaceMessage env ''DEVSPACE_SPACE'',
          Fill = Fill_DEVSPACE_SPACE\<rparr>),
      (''DEVSPACE_SPACE_NAMESPACE'',
         \<lparr>Value = None, ErrorMessage = notASpaceMessage env ''DEVSPACE_SPACE_NAMESPACE'',
          Fill = Fill_DEVSPACE_SPACE_NAMESPACE\<rparr>),
      (''DEVSPACE_USERNAME'',
         \<lparr>Value = None, ErrorMessage = notLoggedInMessage env,
          Fill = Fill_DEVSPACE_USERNAME\<rparr>)]"

subsection \<open>The mutable state\<close>

text \<open>
  \<open>vars\<close> is the current content of the global \<^verbatim>\<open>PredefinedVars\<close>. \<open>invoked\<close> records the
  calls of resolvers, by variable name and in call order: it is the trace of the side effect
  that calling a resolver is.
\<close>

record state =
  vars :: registry
  invoked :: "string list"

definition initialState :: "env \<Rightarrow> state" where
  "initialState env = \<lparr>vars = PredefinedVars env, invoked = []\<rparr>"

subsection \<open>The resolution pass\<close>

text \<open>
  \<^verbatim>\<open>for varName, predefinedVariable := range PredefinedVars\<close>: Go visits every key of the map
  once, in an order it does not specify. The order is the list \<open>keys\<close>; a name that is not a
  key of the map is not visited.
\<close>

fun fillRange :: "env \<Rightarrow> string \<Rightarrow> string list \<Rightarrow> state \<Rightarrow> (error option \<times> state) outcome" where
  "fillRange env overrideKubeContext [] st = Return (None, st)"
| "fillRange env overrideKubeContext (varName # keys) st =
     (case vars st varName of
        None \<Rightarrow> fillRange env overrideKubeContext keys st
      | Some predefinedVariable \<Rightarrow>
          (case Fill predefinedVariable env overrideKubeContext of
             Panic p \<Rightarrow> Panic p
           | Return (val, err) \<Rightarrow>
               (let st1 = st\<lparr>invoked := invoked st @ [varName]\<rparr>
                in case err of
                     Some e \<Rightarrow> Return (Some (Wrap e (''fill predefined var '' @ varName)), st1)
                   | None \<Rightarrow>
                       fillRange env overrideKubeContext keys
                         (st1\<lparr>vars := (vars st1)(varName \<mapsto> predefinedVariable\<lparr>Value := val\<rparr>)\<rparr>))))"

definition fillPredefinedVars ::
  "env \<Rightarrow> string list \<Rightarrow> string \<Rightarrow> state \<Rightarrow> (error option \<times> state) outcome" where
  "fillPredefinedVars env keys overrideKubeContext st = fillRange env overrideKubeContext keys st"

subsection \<open>Lookup\<close>

definition noSpaceConfigured :: "env \<Rightarrow> string \<Rightarrow> error" where
  "noSpaceConfigured env name =
     Errorf ''No space configured, but predefined var %s is used.\<newline>\<newline>Please run: \<newline>- `%s` to create a new space\<newline>- `%s` to use an existing space\<newline>- `%s` to list existing spaces''
       [S name,
        S (ansi_Color env ''devspace create space [NAME]'' ''white+b''),
        S (ansi_Color env ''devspace use space [NAME]'' ''white+b''),
        S (ansi_Color env ''devspace list spaces'' ''white+b'')]"

text \<open>
  The body of the branch \<^verbatim>\<open>if strings.HasPrefix(strings.ToUpper(name), "DEVSPACE_SPACE_DOMAIN")\<close>.
  The suffix is cut from \<open>name\<close> itself; \<open>idx - 1\<close> is 64-bit arithmetic; the source compares
  only \<^verbatim>\<open>len(Domains) <= idx-1\<close> before it indexes, so a negative \<open>idx - 1\<close> reaches
  \<^verbatim>\<open>Domains[idx-1]\<close> and panics.
\<close>

definition spaceDomainVar :: "env \<Rightarrow> string \<Rightarrow> string \<Rightarrow> (bool \<times> string \<times> error option) outcome" where
  "spaceDomainVar env name overrideKubeContext =
     (if length name < length ''DEVSPACE_SPACE_DOMAIN''
      then Panic (SliceBoundsOutOfRange (length ''DEVSPACE_SPACE_DOMAIN'') (length name))
      else
       (case strconv_Atoi (drop (length ''DEVSPACE_SPACE_DOMAIN'') name) of
          (idx, Some err) \<Rightarrow>
            Return (False, [], Some (Errorf ''Error parsing variable %s: %v'' [S name, V err]))
        | (idx, None) \<Rightarrow>
            (case GetCurrentContext env of
               (currentContext, Some err) \<Rightarrow>
                 Return (False, [], Some (Wrap err ''get current context''))
             | (currentContext, None) \<Rightarrow>
                 (let kubeContext =
                        (if overrideKubeContext \<noteq> [] then overrideKubeContext else currentContext)
                  in case GetSpaceID env kubeContext of
                       (spaceID, providerName, Some err) \<Rightarrow>
                         Return (False, [], Some (noSpaceConfigured env name))
                     | (spaceID, providerName, None) \<Rightarrow>
                         (case ParseProviderConfig env of
                            (cloudConfigData, Some err) \<Rightarrow>
                              Return (False, [], Some (Wrap err ''parse provider config''))
                          | (cloudConfigData, None) \<Rightarrow>
                              (case GetProvider env cloudConfigData providerName of
                                 None \<Rightarrow>
                                   Return (False, [],
                                     Some (Errorf ''Couldn't find space provider: %s'' [S providerName]))
                               | Some provider \<Rightarrow>
                                   (case Spaces provider of
                                      None \<Rightarrow> Return (False, [], Some (noSpaceConfigured env name))
                                    | Some spaces \<Rightarrow>
                                        (case spaces spaceID of
                                           None \<Rightarrow>
                                             Return (False, [], Some (noSpaceConfigured env name))
                                         | Some sc \<Rightarrow>
                                             (let domains = Domains (Space sc)
                                              in if int (length domains) \<le> wrap64 (idx - 1)
                                                 then Return (False, [],
                                                   Some (Errorf ''Error loading %s: Space has %d domains but domain with number %d was requested''
                                                     [S name, D (int (length domains)), D idx]))
                                                 else if wrap64 (idx - 1) < 0
                                                 then Panic (IndexOutOfRange (wrap64 (idx - 1)) (length domains))
                                                 else Return (True,
                                                   URL (domains ! nat (wrap64 (idx - 1))), None))))))))))"

text \<open>
  \<^verbatim>\<open>getPredefinedVar\<close> reads the global map and the external world and writes neither; the
  model returns the state after the call next to the result.
\<close>

definition getPredefinedVar ::
  "env \<Rightarrow> state \<Rightarrow> string \<Rightarrow> string \<Rightarrow> (bool \<times> string \<times> error option) outcome \<times> state" where
  "getPredefinedVar env st name overrideKubeContext =
     (case vars st (strings_ToUpper (unicode_ToUpper env) name) of
        Some variable \<Rightarrow>
          (case Value variable of
             None \<Rightarrow> (Return (False, [], Some (New (ErrorMessage variable))), st)
           | Some v \<Rightarrow> (Return (True, v, None), st))
      | None \<Rightarrow>
          if strings_HasPrefix (strings_ToUpper (unicode_ToUpper env) name) ''DEVSPACE_SPACE_DOMAIN''
          then (spaceDomainVar env name overrideKubeContext, st)
          else (Return (False, [], None), st))"

subsection \<open>Example worlds\<close>

text \<open>
  A world with the current context \<open>ctx-a\<close>, the two spaces 1 (context \<open>ctx-a\<close>, two domains)
  and 2 (context \<open>ctx-b\<close>, no domain) of provider \<open>prov\<close>, a logged-in account and a git
  repository.
\<close>

definition exampleSpaces :: "int \<rightharpoonup> spaceCache" where
  "exampleSpaces = map_of
     [(1, \<lparr>Space = \<lparr>Name = ''alpha'', Domains = [\<lparr>URL = ''a1.example.com''\<rparr>, \<lparr>URL = ''a2.example.com''\<rparr>]\<rparr>,
           ServiceAccount = \<lparr>Namespace = ''ns-alpha''\<rparr>\<rparr>),
      (2, \<lparr>Space = \<lparr>Name = ''beta'', Domains = []\<rparr>,
           ServiceAccount = \<lparr>Namespace = ''ns-beta''\<rparr>\<rparr>)]"

definition exampleProvider :: provider where
  "exampleProvider = \<lparr>Token = ''tok'', Spaces = Some exampleSpaces\<rparr>"

definition exampleConfig :: providerConfig where
  "exampleConfig = \<lparr>Default = ''prov'', Providers = [(''prov'', exampleProvider)]\<rparr>"

definition exampleEnv :: env where
  "exampleEnv =
     \<lparr>GetCurrentContext = (''ctx-a'', None),
      IsCloudSpace = (\<lambda>c. (c = ''ctx-a'' \<or> c = ''ctx-b'', None)),
      GetSpaceID = (\<lambda>c. if c = ''ctx-a'' then (1, ''prov'', None)
                          else if c = ''ctx-b'' then (2, ''prov'', None)
                          else (0, [], Some (External ''not a space''))),
      ParseProviderConfig = (exampleConfig, None),
      GetProvider = (\<lambda>cfg n. map_of (Providers cfg) n),
      DevSpaceCloudProviderName = ''app.devspace.cloud'',
      GetAccountName = (\<lambda>t. (''user'', None)),
      GetHash = (''0123456789abcdef0123456789abcdef01234567'', None),
      GenerateRandomString = (\<lambda>n. (''abcdef'', None)),
      time_Now_Unix = 1572595200,
      ansi_Color = (\<lambda>s style. s),
      unicode_ToUpper = (\<lambda>s. s)\<rparr>"

text \<open>The same world without a readable current context.\<close>

definition noContextEnv :: env where
  "noContextEnv = exampleEnv\<lparr>GetCurrentContext := ([], Some (External ''no current context''))\<rparr>"

text \<open>The keys of \<^verbatim>\<open>PredefinedVars\<close>, in the order of the source text.\<close>

definition exampleKeys :: "string list" where
  "exampleKeys =
     [''DEVSPACE_RANDOM'', ''DEVSPACE_TIMESTAMP'', ''DEVSPACE_GIT_COMMIT'',
      ''DEVSPACE_SPACE'', ''DEVSPACE_SPACE_NAMESPACE'', ''DEVSPACE_USERNAME'']"

text \<open>The state a pass over \<open>exampleKeys\<close> leaves in the example world.\<close>

definition examplePassState :: state where
  "examplePassState =
     (case fillPredefinedVars exampleEnv exampleKeys [] (initialState exampleEnv) of
        Return (err, st) \<Rightarrow> st
      | Panic p \<Rightarrow> initialState exampleEnv)"

subsection \<open>Comparing two lookups\<close>

text \<open>
  The errors of the lookups of two names \<open>n1\<close> and \<open>n2\<close> differ only in the quoted name
  when they are equal, or are both made by \<^verbatim>\<open>errors.Errorf\<close> from the same format, the first
  with first argument \<open>n1\<close> and the second with first argument \<open>n2\<close>, and their other
  arguments are equal or are, on both sides, the one syntax error of \<^verbatim>\<open>strconv.Atoi\<close> on the
  suffix of that side's name.
\<close>

definition sameErrorUpToName :: "string \<Rightarrow> string \<Rightarrow> error \<Rightarrow> error \<Rightarrow> bool" where
  "sameErrorUpToName n1 n2 e1 e2 =
     (e1 = e2 \<or>
      (case (e1, e2) of
         (Errorf f1 (S m1 # rest1), Errorf f2 (S m2 # rest2)) \<Rightarrow>
           f1 = f2 \<and> m1 = n1 \<and> m2 = n2 \<and>
           (rest1 = rest2 \<or>
            (rest1 = [V (NumError ''Atoi'' (drop (length ''DEVSPACE_SPACE_DOMAIN'') n1) ErrSyntax)] \<and>
             rest2 = [V (NumError ''Atoi'' (drop (length ''DEVSPACE_SPACE_DOMAIN'') n2) ErrSyntax)]))
       | _ \<Rightarrow> False))"


text \<open>
  The name \<open>dev\<close>, U+017F (LATIN SMALL LETTER LONG S, the bytes C5 BF in UTF-8),
  \<open>pace_space_domain1\<close>, and the example world with the Unicode upper-casing of that name:
  the upper case of U+017F is \<open>S\<close>.
\<close>

definition longSName :: string where
  "longSName = ''dev'' @ [CHR 0xC5, CHR 0xBF] @ ''pace_space_domain1''"

definition longSEnv :: env where
  "longSEnv =
     exampleEnv\<lparr>unicode_ToUpper := (\<lambda>s. if s = longSName then ''DEVSPACE_SPACE_DOMAIN1'' else s)\<rparr>"

section \<open>Evaluation and basic facts\<close>

lemma char_of_eq_iff: "(char_of (n::nat) = c) = (n mod 256 = of_char c)"
  by (metis of_char_of char_of_char char_of_mod_256)

lemma of_char_upperByte:
  "(of_char (upperByte c) :: nat) =
     (if 97 \<le> (of_char c :: nat) \<and> (of_char c :: nat) \<le> 122 then of_char c - 32 else of_char c)"
  by (auto simp add: upperByte_def)

text \<open>Subtracting 32 from a byte of \<open>'a'..'z'\<close> clears its bit 5.\<close>

lemma upperByte_Char:
  "upperByte (Char b0 b1 b2 b3 b4 b5 b6 b7) =
     (if (97::nat) \<le> of_char (Char b0 b1 b2 b3 b4 b5 b6 b7) \<and>
         (of_char (Char b0 b1 b2 b3 b4 b5 b6 b7) :: nat) \<le> 122
      then Char b0 b1 b2 b3 b4 False b6 b7 else Char b0 b1 b2 b3 b4 b5 b6 b7)"
  by (cases b0; cases b1; cases b2; cases b3; cases b4; cases b5; cases b6; cases b7;
      simp add: upperByte_def char_of_eq_iff)

lemmas upper_eval = strings_ToUpper_def isASCII_def upperByte_Char strings_HasPrefix_def

lemmas example_defs = initialState_def exampleEnv_def exampleConfig_def exampleProvider_def
  exampleSpaces_def PredefinedVars_def

lemmas lookup_eval = getPredefinedVar_def spaceDomainVar_def strconv_Atoi_def isDigit_def
  wrap64_def noSpaceConfigured_def

lemmas fill_defs = Fill_DEVSPACE_RANDOM_def Fill_DEVSPACE_TIMESTAMP_def
  Fill_DEVSPACE_GIT_COMMIT_def Fill_DEVSPACE_SPACE_def Fill_DEVSPACE_SPACE_NAMESPACE_def
  Fill_DEVSPACE_USERNAME_def

text \<open>The pass over the example world returns no error.\<close>

lemma example_pass:
  "fillPredefinedVars exampleEnv exampleKeys [] (initialState exampleEnv) =
     Return (None, examplePassState)"
proof -
  have "\<exists>st'. fillPredefinedVars exampleEnv exampleKeys [] (initialState exampleEnv) =
      Return (None, st')"
    by (simp add: fillPredefinedVars_def exampleKeys_def example_defs fill_defs
        strconv_FormatInt10_def Let_def)
  then show ?thesis by (auto simp add: examplePassState_def)
qed

lemma PredefinedVars_Fill:
  "PredefinedVars env0 ''DEVSPACE_RANDOM'' = Some pv \<Longrightarrow> Fill pv = Fill_DEVSPACE_RANDOM"
  "PredefinedVars env0 ''DEVSPACE_TIMESTAMP'' = Some pv \<Longrightarrow> Fill pv = Fill_DEVSPACE_TIMESTAMP"
  "PredefinedVars env0 ''DEVSPACE_GIT_COMMIT'' = Some pv \<Longrightarrow> Fill pv = Fill_DEVSPACE_GIT_COMMIT"
  "PredefinedVars env0 ''DEVSPACE_SPACE'' = Some pv \<Longrightarrow> Fill pv = Fill_DEVSPACE_SPACE"
  "PredefinedVars env0 ''DEVSPACE_SPACE_NAMESPACE'' = Some pv \<Longrightarrow>
     Fill pv = Fill_DEVSPACE_SPACE_NAMESPACE"
  "PredefinedVars env0 ''DEVSPACE_USERNAME'' = Some pv \<Longrightarrow> Fill pv = Fill_DEVSPACE_USERNAME"
  by (auto simp add: PredefinedVars_def)

text \<open>A pass changes no key of the map: it only assigns \<open>Value\<close> fields.\<close>

lemma fillRange_dom:
  "fillRange env ctx keys st = Return (e, st') \<Longrightarrow> dom (vars st') = dom (vars st)"
proof (induction keys arbitrary: st)
  case Nil
  then show ?case by simp
next
  case (Cons k keys)
  show ?case
  proof (cases "vars st k")
    case None
    with Cons show ?thesis by simp
  next
    case (Some pv)
    show ?thesis
    proof (cases "Fill pv env ctx")
      case (Panic p)
      with Some Cons.prems show ?thesis by simp
    next
      case (Return r)
      obtain val err where r: "r = (val, err)" by (cases r)
      show ?thesis
      proof (cases err)
        case None
        let ?st1 = "st\<lparr>invoked := invoked st @ [k], vars := (vars st)(k \<mapsto> pv\<lparr>Value := val\<rparr>)\<rparr>"
        from Cons.prems Some Return r None
        have "fillRange env ctx keys ?st1 = Return (e, st')" by (simp add: Let_def)
        then have "dom (vars st') = dom (vars ?st1)" by (rule Cons.IH)
        with Some show ?thesis by auto
      next
        case (Some e')
        with \<open>vars st k = Some pv\<close> Return r Cons.prems show ?thesis
          by (auto simp add: Let_def)
      qed
    qed
  qed
qed

section \<open>Lookup of names that are no predefined variable\<close>

text \<open>
  C8. A name whose upper-case form is no key of the registry and does not start with
  \<open>DEVSPACE_SPACE_DOMAIN\<close> is looked up as \<open>(false, "", nil)\<close>: not found, and no error.
\<close>

theorem unrecognized_name_not_found:
  assumes "vars st (strings_ToUpper (unicode_ToUpper env) name) = None"
    and "\<not> strings_HasPrefix (strings_ToUpper (unicode_ToUpper env) name) ''DEVSPACE_SPACE_DOMAIN''"
  shows "getPredefinedVar env st name overrideKubeContext = (Return (False, [], None), st)"
  using assms by (simp add: getPredefinedVar_def)

theorem unrecognized_name_not_found_witness:
  "vars (initialState exampleEnv) (strings_ToUpper (unicode_ToUpper exampleEnv) ''NOT_A_VAR'') = None
   \<and> \<not> strings_HasPrefix (strings_ToUpper (unicode_ToUpper exampleEnv) ''NOT_A_VAR'')
         ''DEVSPACE_SPACE_DOMAIN''
   \<and> getPredefinedVar exampleEnv (initialState exampleEnv) ''NOT_A_VAR'' [] =
       (Return (False, [], None), initialState exampleEnv)"
proof -
  have h1: "vars (initialState exampleEnv)
      (strings_ToUpper (unicode_ToUpper exampleEnv) ''NOT_A_VAR'') = None"
    by (simp add: example_defs upper_eval)
  have h2: "\<not> strings_HasPrefix (strings_ToUpper (unicode_ToUpper exampleEnv) ''NOT_A_VAR'')
      ''DEVSPACE_SPACE_DOMAIN''"
    by (simp add: example_defs upper_eval)
  from h1 h2 unrecognized_name_not_found [OF h1 h2, of "[]"] show ?thesis by simp
qed

section \<open>Lookup of static names\<close>

text \<open>
  C2, as the source has it. For a name whose upper-case form is a key of the registry: when
  the cached \<open>Value\<close> is \<^verbatim>\<open>nil\<close>, the lookup returns found = false (not true), the empty
  value and the error \<^verbatim>\<open>errors.New(ErrorMessage)\<close> of that variable; and the lookup never
  returns the not-recognized result \<open>(false, "", nil)\<close>, in the present state and in the state
  left by any pass that returned no error.
\<close>

theorem static_lookup_unavailable:
  assumes "vars st (strings_ToUpper (unicode_ToUpper env) name) = Some variable"
  shows "(Value variable = None \<longrightarrow>
            getPredefinedVar env st name overrideKubeContext =
              (Return (False, [], Some (New (ErrorMessage variable))), st))
       \<and> fst (getPredefinedVar env st name overrideKubeContext) \<noteq> Return (False, [], None)
       \<and> (\<forall>env0 keys ctx0 st'.
             fillPredefinedVars env0 keys ctx0 st = Return (None, st') \<longrightarrow>
             fst (getPredefinedVar env st' name overrideKubeContext) \<noteq> Return (False, [], None))"
proof (intro conjI allI impI)
  assume "Value variable = None"
  with assms show "getPredefinedVar env st name overrideKubeContext =
      (Return (False, [], Some (New (ErrorMessage variable))), st)"
    by (simp add: getPredefinedVar_def)
next
  from assms show "fst (getPredefinedVar env st name overrideKubeContext) \<noteq> Return (False, [], None)"
    by (simp add: getPredefinedVar_def split: option.splits)
next
  fix env0 keys ctx0 st'
  assume "fillPredefinedVars env0 keys ctx0 st = Return (None, st')"
  then have "dom (vars st') = dom (vars st)"
    unfolding fillPredefinedVars_def by (rule fillRange_dom)
  with assms obtain variable'
    where "vars st' (strings_ToUpper (unicode_ToUpper env) name) = Some variable'"
    by (metis domD domI)
  then show "fst (getPredefinedVar env st' name overrideKubeContext) \<noteq> Return (False, [], None)"
    by (simp add: getPredefinedVar_def split: option.splits)
qed

theorem static_lookup_unavailable_witness:
  "vars (initialState exampleEnv)
      (strings_ToUpper (unicode_ToUpper exampleEnv) ''devspace_git_commit'') =
     Some \<lparr>Value = None,
       ErrorMessage = ''No git repository found, but predefined var DEVSPACE_GIT_COMMIT is used'',
       Fill = Fill_DEVSPACE_GIT_COMMIT\<rparr>
   \<and> getPredefinedVar exampleEnv (initialState exampleEnv) ''devspace_git_commit'' [] =
       (Return (False, [],
          Some (New ''No git repository found, but predefined var DEVSPACE_GIT_COMMIT is used'')),
        initialState exampleEnv)
   \<and> fst (getPredefinedVar exampleEnv (initialState exampleEnv) ''devspace_git_commit'' []) \<noteq>
       Return (False, [], None)
   \<and> fillPredefinedVars exampleEnv exampleKeys [] (initialState exampleEnv) =
       Return (None, examplePassState)
   \<and> fst (getPredefinedVar exampleEnv examplePassState ''devspace_git_commit'' []) \<noteq>
       Return (False, [], None)"
proof -
  have h: "vars (initialState exampleEnv)
      (strings_ToUpper (unicode_ToUpper exampleEnv) ''devspace_git_commit'') =
     Some \<lparr>Value = None,
       ErrorMessage = ''No git repository found, but predefined var DEVSPACE_GIT_COMMIT is used'',
       Fill = Fill_DEVSPACE_GIT_COMMIT\<rparr>"
    by (simp add: example_defs upper_eval)
  from h static_lookup_unavailable [OF h, of "[]"] example_pass show ?thesis by simp
qed

text \<open>
  C2 as the specification words it (found = true for a recognised name without a value) does
  not hold: before any pass, \<open>DEVSPACE_GIT_COMMIT\<close> is a key of the registry with a \<^verbatim>\<open>nil\<close>
  value, and its lookup returns found = false.
\<close>

theorem static_lookup_found_flag_counterexample:
  "map_option Value (vars (initialState exampleEnv) ''DEVSPACE_GIT_COMMIT'') = Some None
   \<and> fst (getPredefinedVar exampleEnv (initialState exampleEnv) ''DEVSPACE_GIT_COMMIT'' []) =
       Return (False, [],
         Some (New ''No git repository found, but predefined var DEVSPACE_GIT_COMMIT is used''))
   \<and> fst (getPredefinedVar exampleEnv (initialState exampleEnv) ''DEVSPACE_GIT_COMMIT'' []) \<noteq>
       Return (True, [],
         Some (New ''No git repository found, but predefined var DEVSPACE_GIT_COMMIT is used''))"
  by (simp add: example_defs upper_eval getPredefinedVar_def)

section \<open>Lookup writes nothing\<close>

text \<open>
  C7. A lookup leaves the state as it found it, whatever the name and whatever the result
  (a value, an error or a panic): in particular the parametric branch writes no \<open>Value\<close> of
  the registry.
\<close>

theorem lookup_leaves_registry_unchanged:
  "snd (getPredefinedVar env st name overrideKubeContext) = st
   \<and> vars (snd (getPredefinedVar env st name overrideKubeContext)) = vars st"
  by (simp add: getPredefinedVar_def split: option.splits)

section \<open>The resolvers\<close>

text \<open>
  C10. When the read of the repository hash succeeds, the resolver of \<open>DEVSPACE_GIT_COMMIT\<close>
  returns the first 8 bytes of the hash provided the hash has at least 8 bytes; on a shorter
  hash the unguarded \<^verbatim>\<open>hash[:8]\<close> panics.
\<close>

theorem git_commit_is_first_8_bytes:
  assumes "PredefinedVars env0 ''DEVSPACE_GIT_COMMIT'' = Some pv"
    and "GetHash env = (hash, None)"
  shows "(8 \<le> length hash \<longrightarrow> Fill pv env kubeContext = Return (Some (take 8 hash), None))
       \<and> (length hash < 8 \<longrightarrow>
            Fill pv env kubeContext = Panic (SliceBoundsOutOfRange 8 (length hash)))"
  using assms(2) by (simp add: PredefinedVars_Fill(3) [OF assms(1)] Fill_DEVSPACE_GIT_COMMIT_def)

theorem git_commit_is_first_8_bytes_witness:
  "PredefinedVars exampleEnv ''DEVSPACE_GIT_COMMIT'' =
     Some \<lparr>Value = None,
       ErrorMessage = ''No git repository found, but predefined var DEVSPACE_GIT_COMMIT is used'',
       Fill = Fill_DEVSPACE_GIT_COMMIT\<rparr>
   \<and> GetHash exampleEnv = (''0123456789abcdef0123456789abcdef01234567'', None)
   \<and> Fill_DEVSPACE_GIT_COMMIT exampleEnv [] = Return (Some ''01234567'', None)
   \<and> GetHash (exampleEnv\<lparr>GetHash := (''abc'', None)\<rparr>) = (''abc'', None)
   \<and> Fill_DEVSPACE_GIT_COMMIT (exampleEnv\<lparr>GetHash := (''abc'', None)\<rparr>) [] =
       Panic (SliceBoundsOutOfRange 8 3)"
proof -
  have h1: "PredefinedVars exampleEnv ''DEVSPACE_GIT_COMMIT'' =
     Some \<lparr>Value = None,
       ErrorMessage = ''No git repository found, but predefined var DEVSPACE_GIT_COMMIT is used'',
       Fill = Fill_DEVSPACE_GIT_COMMIT\<rparr>"
    by (simp add: PredefinedVars_def)
  have h2: "GetHash exampleEnv = (''0123456789abcdef0123456789abcdef01234567'', None)"
    by (simp add: exampleEnv_def)
  have h3: "GetHash (exampleEnv\<lparr>GetHash := (''abc'', None)\<rparr>) = (''abc'', None)"
    by simp
  from h1 h2 h3 git_commit_is_first_8_bytes [OF h1 h2, of "[]"]
    git_commit_is_first_8_bytes [OF h1 h3, of "[]"]
  show ?thesis by simp
qed

text \<open>
  C9. In the resolver of \<open>DEVSPACE_SPACE\<close>, a failure of the current-context read, of the
  cloud-space check or of the provider-config parse gives ``not available'', \<open>(nil, nil)\<close>; so
  does a failure of the repository-hash read in the resolver of \<open>DEVSPACE_GIT_COMMIT\<close>. Each
  call is made on the context the source passes to it, after the calls before it succeeded.
  (The space-id lookup, which lies between the cloud-space check and the provider-config
  parse, is not among them: its error is returned.)
\<close>

theorem lookup_failures_give_not_available:
  assumes "PredefinedVars env0 ''DEVSPACE_SPACE'' = Some sp"
    and "PredefinedVars env0 ''DEVSPACE_GIT_COMMIT'' = Some gc"
  shows "(snd (GetCurrentContext env) \<noteq> None \<longrightarrow> Fill sp env override = Return (None, None))
       \<and> (GetCurrentContext env = (cur, None) \<and>
            snd (IsCloudSpace env (if override \<noteq> [] then override else cur)) \<noteq> None \<longrightarrow>
            Fill sp env override = Return (None, None))
       \<and> (GetCurrentContext env = (cur, None) \<and>
            IsCloudSpace env (if override \<noteq> [] then override else cur) = (True, None) \<and>
            snd (snd (GetSpaceID env (if override \<noteq> [] then override else cur))) = None \<and>
            snd (ParseProviderConfig env) \<noteq> None \<longrightarrow>
            Fill sp env override = Return (None, None))
       \<and> (snd (GetHash env) \<noteq> None \<longrightarrow> Fill gc env override = Return (None, None))"
proof (intro conjI impI)
  assume "snd (GetCurrentContext env) \<noteq> None"
  then obtain c e where "GetCurrentContext env = (c, Some e)"
    by (cases "GetCurrentContext env") auto
  then show "Fill sp env override = Return (None, None)"
    by (simp add: PredefinedVars_Fill(4) [OF assms(1)] Fill_DEVSPACE_SPACE_def)
next
  assume a: "GetCurrentContext env = (cur, None) \<and>
    snd (IsCloudSpace env (if override \<noteq> [] then override else cur)) \<noteq> None"
  then obtain b e where "IsCloudSpace env (if override \<noteq> [] then override else cur) = (b, Some e)"
    by (cases "IsCloudSpace env (if override \<noteq> [] then override else cur)") auto
  with a show "Fill sp env override = Return (None, None)"
    by (simp add: PredefinedVars_Fill(4) [OF assms(1)] Fill_DEVSPACE_SPACE_def)
next
  assume a: "GetCurrentContext env = (cur, None) \<and>
    IsCloudSpace env (if override \<noteq> [] then override else cur) = (True, None) \<and>
    snd (snd (GetSpaceID env (if override \<noteq> [] then override else cur))) = None \<and>
    snd (ParseProviderConfig env) \<noteq> None"
  then obtain sid pn where
    "GetSpaceID env (if override \<noteq> [] then override else cur) = (sid, pn, None)"
    by (cases "GetSpaceID env (if override \<noteq> [] then override else cur)") auto
  moreover from a obtain cfg e where "ParseProviderConfig env = (cfg, Some e)"
    by (cases "ParseProviderConfig env") auto
  ultimately show "Fill sp env override = Return (None, None)"
    using a by (simp add: PredefinedVars_Fill(4) [OF assms(1)] Fill_DEVSPACE_SPACE_def)
next
  assume "snd (GetHash env) \<noteq> None"
  then obtain h e where "GetHash env = (h, Some e)"
    by (cases "GetHash env") auto
  then show "Fill gc env override = Return (None, None)"
    by (simp add: PredefinedVars_Fill(3) [OF assms(2)] Fill_DEVSPACE_GIT_COMMIT_def)
qed

theorem lookup_failures_give_not_available_witness:
  "PredefinedVars exampleEnv ''DEVSPACE_SPACE'' =
     Some \<lparr>Value = None, ErrorMessage = notASpaceMessage exampleEnv ''DEVSPACE_SPACE'',
       Fill = Fill_DEVSPACE_SPACE\<rparr>
   \<and> PredefinedVars exampleEnv ''DEVSPACE_GIT_COMMIT'' =
     Some \<lparr>Value = None,
       ErrorMessage = ''No git repository found, but predefined var DEVSPACE_GIT_COMMIT is used'',
       Fill = Fill_DEVSPACE_GIT_COMMIT\<rparr>
   \<and> Fill_DEVSPACE_SPACE
         (exampleEnv\<lparr>GetCurrentContext := ([], Some (External ''no current context''))\<rparr>) [] =
       Return (None, None)
   \<and> Fill_DEVSPACE_SPACE
         (exampleEnv\<lparr>IsCloudSpace := (\<lambda>c. (False, Some (External ''no kube config'')))\<rparr>) [] =
       Return (None, None)
   \<and> Fill_DEVSPACE_SPACE
         (exampleEnv\<lparr>ParseProviderConfig := (exampleConfig, Some (External ''no provider config''))\<rparr>) [] =
       Return (None, None)
   \<and> Fill_DEVSPACE_GIT_COMMIT
         (exampleEnv\<lparr>GetHash := ([], Some (External ''no repository''))\<rparr>) [] =
       Return (None, None)"
proof -
  let ?e1 = "exampleEnv\<lparr>GetCurrentContext := ([], Some (External ''no current context''))\<rparr>"
  let ?e2 = "exampleEnv\<lparr>IsCloudSpace := (\<lambda>c. (False, Some (External ''no kube config'')))\<rparr>"
  let ?e3 = "exampleEnv\<lparr>ParseProviderConfig := (exampleConfig, Some (External ''no provider config''))\<rparr>"
  let ?e4 = "exampleEnv\<lparr>GetHash := ([], Some (External ''no repository''))\<rparr>"
  have sp: "PredefinedVars exampleEnv ''DEVSPACE_SPACE'' =
     Some \<lparr>Value = None, ErrorMessage = notASpaceMessage exampleEnv ''DEVSPACE_SPACE'',
       Fill = Fill_DEVSPACE_SPACE\<rparr>"
    by (simp add: PredefinedVars_def)
  have gc: "PredefinedVars exampleEnv ''DEVSPACE_GIT_COMMIT'' =
     Some \<lparr>Value = None,
       ErrorMessage = ''No git repository found, but predefined var DEVSPACE_GIT_COMMIT is used'',
       Fill = Fill_DEVSPACE_GIT_COMMIT\<rparr>"
    by (simp add: PredefinedVars_def)
  have h1: "snd (GetCurrentContext ?e1) \<noteq> None" by simp
  have h2: "GetCurrentContext ?e2 = (''ctx-a'', None) \<and>
      snd (IsCloudSpace ?e2 (if [] \<noteq> [] then [] else ''ctx-a'')) \<noteq> None"
    by (simp add: exampleEnv_def)
  have h3: "GetCurrentContext ?e3 = (''ctx-a'', None) \<and>
      IsCloudSpace ?e3 (if [] \<noteq> [] then [] else ''ctx-a'') = (True, None) \<and>
      snd (snd (GetSpaceID ?e3 (if [] \<noteq> [] then [] else ''ctx-a''))) = None \<and>
      snd (ParseProviderConfig ?e3) \<noteq> None"
    by (simp add: exampleEnv_def)
  have h4: "snd (GetHash ?e4) \<noteq> None" by simp
  from h1 lookup_failures_give_not_available [OF sp gc, of ?e1 "[]"]
  have c1: "Fill_DEVSPACE_SPACE ?e1 [] = Return (None, None)" by simp
  from h2 lookup_failures_give_not_available [OF sp gc, of ?e2 "[]" "''ctx-a''"]
  have c2: "Fill_DEVSPACE_SPACE ?e2 [] = Return (None, None)" by simp
  from h3 lookup_failures_give_not_available [OF sp gc, of ?e3 "[]" "''ctx-a''"]
  have c3: "Fill_DEVSPACE_SPACE ?e3 [] = Return (None, None)" by simp
  from h4 lookup_failures_give_not_available [OF sp gc, of ?e4 "[]"]
  have c4: "Fill_DEVSPACE_GIT_COMMIT ?e4 [] = Return (None, None)" by simp
  from sp gc c1 c2 c3 c4 show ?thesis by (intro conjI)
qed

section \<open>The resolution pass\<close>

lemma fillRange_step_ok:
  assumes "vars st k = Some pv" and "Fill pv env ctx = Return (val, None)"
  shows "fillRange env ctx (k # keys) st =
     fillRange env ctx keys
       (st\<lparr>invoked := invoked st @ [k], vars := (vars st)(k \<mapsto> pv\<lparr>Value := val\<rparr>)\<rparr>)"
  using assms by (simp add: Let_def)

lemma fillRange_step_error:
  assumes "vars st k = Some pv" and "Fill pv env ctx = Return (val, Some e)"
  shows "fillRange env ctx (k # keys) st =
     Return (Some (Wrap e (''fill predefined var '' @ k)), st\<lparr>invoked := invoked st @ [k]\<rparr>)"
  using assms by (simp add: Let_def)

lemma fillRange_abort:
  assumes "\<forall>k \<in> set pre. \<exists>pv val. vars st k = Some pv \<and> Fill pv env ctx = Return (val, None)"
    and "vars st varName = Some failing"
    and "Fill failing env ctx = Return (val, Some e)"
  shows "\<exists>st'. fillRange env ctx (pre @ varName # post) st =
            Return (Some (Wrap e (''fill predefined var '' @ varName)), st')
          \<and> invoked st' = invoked st @ pre @ [varName]
          \<and> (\<forall>k. k \<notin> set pre \<longrightarrow> vars st' k = vars st k)"
  using assms
proof (induction pre arbitrary: st failing)
  case Nil
  then show ?case by (simp add: fillRange_step_error)
next
  case (Cons k pre)
  from Cons.prems(1) obtain pv v where k: "vars st k = Some pv" "Fill pv env ctx = Return (v, None)"
    by auto
  let ?st1 = "st\<lparr>invoked := invoked st @ [k], vars := (vars st)(k \<mapsto> pv\<lparr>Value := v\<rparr>)\<rparr>"
  from k Cons.prems(2,3) have ne: "varName \<noteq> k" by auto
  have p1: "\<forall>j \<in> set pre. \<exists>pv val. vars ?st1 j = Some pv \<and> Fill pv env ctx = Return (val, None)"
  proof
    fix j assume "j \<in> set pre"
    with Cons.prems(1) obtain pj vj where "vars st j = Some pj" "Fill pj env ctx = Return (vj, None)"
      by auto
    with k show "\<exists>pv val. vars ?st1 j = Some pv \<and> Fill pv env ctx = Return (val, None)"
      by (cases "j = k") auto
  qed
  from ne Cons.prems(2) have p2: "vars ?st1 varName = Some failing" by simp
  from Cons.IH [OF p1 p2 Cons.prems(3)] obtain st' where
    r: "fillRange env ctx (pre @ varName # post) ?st1 =
          Return (Some (Wrap e (''fill predefined var '' @ varName)), st')"
    and i: "invoked st' = invoked ?st1 @ pre @ [varName]"
    and f: "\<forall>j. j \<notin> set pre \<longrightarrow> vars st' j = vars ?st1 j"
    by blast
  have "fillRange env ctx ((k # pre) @ varName # post) st =
      Return (Some (Wrap e (''fill predefined var '' @ varName)), st')"
    using r fillRange_step_ok [OF k] by simp
  moreover from i have "invoked st' = invoked st @ (k # pre) @ [varName]" by simp
  moreover from f have "\<forall>j. j \<notin> set (k # pre) \<longrightarrow> vars st' j = vars st j" by simp
  ultimately show ?case by blast
qed

text \<open>
  C3. Let the pass visit the names \<open>pre\<close>, then \<open>varName\<close>, then \<open>post\<close>. If the resolvers
  of \<open>pre\<close> return no error and the resolver of \<open>varName\<close> returns the error \<open>e\<close>, the pass
  returns \<open>e\<close> wrapped with \<open>"fill predefined var " + varName\<close>; the resolvers called are those
  of \<open>pre\<close> and of \<open>varName\<close>, in this order, and none of \<open>post\<close>; and no variable outside
  \<open>pre\<close> has been written.
\<close>

theorem pass_stops_at_first_hard_error:
  assumes "\<forall>k \<in> set pre. \<exists>pv val. vars st k = Some pv \<and> Fill pv env ctx = Return (val, None)"
    and "vars st varName = Some failing"
    and "Fill failing env ctx = Return (val, Some e)"
  shows "\<exists>st'. fillPredefinedVars env (pre @ varName # post) ctx st =
            Return (Some (Wrap e (''fill predefined var '' @ varName)), st')
          \<and> invoked st' = invoked st @ pre @ [varName]
          \<and> (\<forall>k. k \<notin> set pre \<longrightarrow> vars st' k = vars st k)"
  unfolding fillPredefinedVars_def using assms by (rule fillRange_abort)

theorem pass_stops_at_first_hard_error_witness:
  "vars (initialState exampleEnv) ''DEVSPACE_RANDOM'' =
     Some \<lparr>Value = None, ErrorMessage = [], Fill = Fill_DEVSPACE_RANDOM\<rparr>
   \<and> Fill_DEVSPACE_RANDOM noContextEnv [] = Return (Some ''abcdef'', None)
   \<and> vars (initialState exampleEnv) ''DEVSPACE_USERNAME'' =
     Some \<lparr>Value = None, ErrorMessage = notLoggedInMessage exampleEnv,
       Fill = Fill_DEVSPACE_USERNAME\<rparr>
   \<and> Fill_DEVSPACE_USERNAME noContextEnv [] = Return (None, Some (External ''no current context''))
   \<and> (\<exists>st'. fillPredefinedVars noContextEnv
          ([''DEVSPACE_RANDOM''] @ ''DEVSPACE_USERNAME'' #
             [''DEVSPACE_TIMESTAMP'', ''DEVSPACE_GIT_COMMIT'', ''DEVSPACE_SPACE'',
              ''DEVSPACE_SPACE_NAMESPACE''])
          [] (initialState exampleEnv) =
        Return (Some (Wrap (External ''no current context'')
                  ''fill predefined var DEVSPACE_USERNAME''), st')
        \<and> invoked st' = [''DEVSPACE_RANDOM'', ''DEVSPACE_USERNAME'']
        \<and> vars st' ''DEVSPACE_TIMESTAMP'' = vars (initialState exampleEnv) ''DEVSPACE_TIMESTAMP''
        \<and> vars st' ''DEVSPACE_USERNAME'' = vars (initialState exampleEnv) ''DEVSPACE_USERNAME'')"
proof -
  have r: "vars (initialState exampleEnv) ''DEVSPACE_RANDOM'' =
     Some \<lparr>Value = None, ErrorMessage = [], Fill = Fill_DEVSPACE_RANDOM\<rparr>"
    by (simp add: initialState_def PredefinedVars_def)
  have fr: "Fill_DEVSPACE_RANDOM noContextEnv [] = Return (Some ''abcdef'', None)"
    by (simp add: Fill_DEVSPACE_RANDOM_def noContextEnv_def exampleEnv_def)
  have u: "vars (initialState exampleEnv) ''DEVSPACE_USERNAME'' =
     Some \<lparr>Value = None, ErrorMessage = notLoggedInMessage exampleEnv,
       Fill = Fill_DEVSPACE_USERNAME\<rparr>"
    by (simp add: initialState_def PredefinedVars_def)
  have fu: "Fill \<lparr>Value = None, ErrorMessage = notLoggedInMessage exampleEnv,
       Fill = Fill_DEVSPACE_USERNAME\<rparr> noContextEnv [] =
     Return (None, Some (External ''no current context''))"
    by (simp add: Fill_DEVSPACE_USERNAME_def noContextEnv_def)
  have pre: "\<forall>k \<in> set [''DEVSPACE_RANDOM''].
      \<exists>pv val. vars (initialState exampleEnv) k = Some pv \<and> Fill pv noContextEnv [] = Return (val, None)"
    using r fr by simp
  from pass_stops_at_first_hard_error [OF pre u fu,
      of "[''DEVSPACE_TIMESTAMP'', ''DEVSPACE_GIT_COMMIT'', ''DEVSPACE_SPACE'',
           ''DEVSPACE_SPACE_NAMESPACE'']"]
  obtain st' where
    "fillPredefinedVars noContextEnv
          ([''DEVSPACE_RANDOM''] @ ''DEVSPACE_USERNAME'' #
             [''DEVSPACE_TIMESTAMP'', ''DEVSPACE_GIT_COMMIT'', ''DEVSPACE_SPACE'',
              ''DEVSPACE_SPACE_NAMESPACE''])
          [] (initialState exampleEnv) =
        Return (Some (Wrap (External ''no current context'')
                  ''fill predefined var DEVSPACE_USERNAME''), st')"
    and "invoked st' = invoked (initialState exampleEnv) @ [''DEVSPACE_RANDOM''] @ [''DEVSPACE_USERNAME'']"
    and "\<forall>k. k \<notin> set [''DEVSPACE_RANDOM''] \<longrightarrow> vars st' k = vars (initialState exampleEnv) k"
    by auto
  moreover have "invoked (initialState exampleEnv) = []" by (simp add: initialState_def)
  ultimately have "\<exists>st'. fillPredefinedVars noContextEnv
          ([''DEVSPACE_RANDOM''] @ ''DEVSPACE_USERNAME'' #
             [''DEVSPACE_TIMESTAMP'', ''DEVSPACE_GIT_COMMIT'', ''DEVSPACE_SPACE'',
              ''DEVSPACE_SPACE_NAMESPACE''])
          [] (initialState exampleEnv) =
        Return (Some (Wrap (External ''no current context'')
                  ''fill predefined var DEVSPACE_USERNAME''), st')
        \<and> invoked st' = [''DEVSPACE_RANDOM'', ''DEVSPACE_USERNAME'']
        \<and> vars st' ''DEVSPACE_TIMESTAMP'' = vars (initialState exampleEnv) ''DEVSPACE_TIMESTAMP''
        \<and> vars st' ''DEVSPACE_USERNAME'' = vars (initialState exampleEnv) ''DEVSPACE_USERNAME''"
    by auto
  with r fr u fu show ?thesis by simp
qed

text \<open>What a pass that returns no error has done to the registry.\<close>

lemma fillRange_success:
  assumes "fillRange env ctx keys st = Return (None, st')" and "vars st k = Some pv"
  shows "if k \<in> set keys
         then \<exists>val. Fill pv env ctx = Return (val, None) \<and> vars st' k = Some (pv\<lparr>Value := val\<rparr>)
         else vars st' k = Some pv"
  using assms
proof (induction keys arbitrary: st pv)
  case Nil
  then show ?case by simp
next
  case (Cons j keys)
  show ?case
  proof (cases "vars st j")
    case None
    with Cons.prems have "fillRange env ctx keys st = Return (None, st')" and "k \<noteq> j"
      by auto
    with Cons.IH [of st pv] Cons.prems(2) show ?thesis by simp
  next
    case (Some pj)
    show ?thesis
    proof (cases "Fill pj env ctx")
      case (Panic p)
      with Some Cons.prems(1) show ?thesis by simp
    next
      case (Return r)
      obtain vj err where r: "r = (vj, err)" by (cases r)
      from Some Return r Cons.prems(1) have err: "err = None"
        by (cases err) (auto simp add: Let_def)
      let ?st1 = "st\<lparr>invoked := invoked st @ [j], vars := (vars st)(j \<mapsto> pj\<lparr>Value := vj\<rparr>)\<rparr>"
      from Some Return r err have fj: "Fill pj env ctx = Return (vj, None)" by simp
      from Cons.prems(1) fillRange_step_ok [OF Some fj]
      have run: "fillRange env ctx keys ?st1 = Return (None, st')" by simp
      show ?thesis
      proof (cases "k = j")
        case True
        with Some Cons.prems(2) have pv: "pv = pj" by simp
        have "vars ?st1 k = Some (pj\<lparr>Value := vj\<rparr>)" using True by simp
        from Cons.IH [OF run this] fj pv True show ?thesis
          by (auto split: if_splits)
      next
        case False
        with Cons.prems(2) have "vars ?st1 k = Some pv" by simp
        from Cons.IH [OF run this] False show ?thesis by simp
      qed
    qed
  qed
qed

text \<open>
  C5. After a pass that visits every key of the registry and returns no error, every
  variable holds what its resolver returned in this pass, a string or \<^verbatim>\<open>nil\<close> for ``not
  available''; nothing else of the variable has changed. No \<open>Value\<close> is left as it was
  before the pass.
\<close>

theorem successful_pass_assigns_every_value:
  assumes "fillPredefinedVars env keys ctx st = Return (None, st')"
    and "dom (vars st) \<subseteq> set keys"
  shows "\<forall>k pv. vars st k = Some pv \<longrightarrow>
           (\<exists>val. Fill pv env ctx = Return (val, None) \<and> vars st' k = Some (pv\<lparr>Value := val\<rparr>))"
proof (intro allI impI)
  fix k pv
  assume k: "vars st k = Some pv"
  with assms(2) have "k \<in> set keys" by auto
  with fillRange_success [OF assms(1) [unfolded fillPredefinedVars_def] k]
  show "\<exists>val. Fill pv env ctx = Return (val, None) \<and> vars st' k = Some (pv\<lparr>Value := val\<rparr>)"
    by simp
qed

theorem successful_pass_assigns_every_value_witness:
  "fillPredefinedVars exampleEnv exampleKeys [] (initialState exampleEnv) =
     Return (None, examplePassState)
   \<and> dom (vars (initialState exampleEnv)) \<subseteq> set exampleKeys
   \<and> vars (initialState exampleEnv) ''DEVSPACE_SPACE'' =
       Some \<lparr>Value = None, ErrorMessage = notASpaceMessage exampleEnv ''DEVSPACE_SPACE'',
         Fill = Fill_DEVSPACE_SPACE\<rparr>
   \<and> Fill_DEVSPACE_SPACE exampleEnv [] = Return (Some ''alpha'', None)
   \<and> vars examplePassState ''DEVSPACE_SPACE'' =
       Some \<lparr>Value = Some ''alpha'', ErrorMessage = notASpaceMessage exampleEnv ''DEVSPACE_SPACE'',
         Fill = Fill_DEVSPACE_SPACE\<rparr>"
proof -
  have d: "dom (vars (initialState exampleEnv)) \<subseteq> set exampleKeys"
    by (auto simp add: initialState_def PredefinedVars_def exampleKeys_def split: if_splits)
  have s: "vars (initialState exampleEnv) ''DEVSPACE_SPACE'' =
       Some \<lparr>Value = None, ErrorMessage = notASpaceMessage exampleEnv ''DEVSPACE_SPACE'',
         Fill = Fill_DEVSPACE_SPACE\<rparr>"
    by (simp add: initialState_def PredefinedVars_def)
  have f: "Fill_DEVSPACE_SPACE exampleEnv [] = Return (Some ''alpha'', None)"
    by (simp add: Fill_DEVSPACE_SPACE_def exampleEnv_def exampleConfig_def exampleProvider_def
        exampleSpaces_def)
  from successful_pass_assigns_every_value [OF example_pass d] s f
  have "vars examplePassState ''DEVSPACE_SPACE'' =
       Some \<lparr>Value = Some ''alpha'', ErrorMessage = notASpaceMessage exampleEnv ''DEVSPACE_SPACE'',
         Fill = Fill_DEVSPACE_SPACE\<rparr>"
    by fastforce
  with example_pass d s f show ?thesis by simp
qed

section \<open>The context override\<close>

lemma PredefinedVars_Fill_cases:
  assumes "PredefinedVars env0 name = Some pv"
  shows "Fill pv = Fill_DEVSPACE_RANDOM \<or> Fill pv = Fill_DEVSPACE_TIMESTAMP \<or>
         Fill pv = Fill_DEVSPACE_GIT_COMMIT \<or> Fill pv = Fill_DEVSPACE_SPACE \<or>
         Fill pv = Fill_DEVSPACE_SPACE_NAMESPACE \<or> Fill pv = Fill_DEVSPACE_USERNAME"
  using assms by (auto simp add: PredefinedVars_def split: if_splits)

lemma Fill_override:
  assumes "override \<noteq> []" and "PredefinedVars env0 name = Some pv"
  shows "Fill pv (env\<lparr>GetCurrentContext := (current, None)\<rparr>) override =
         Fill pv (env\<lparr>GetCurrentContext := (override, None)\<rparr>) []"
  using PredefinedVars_Fill_cases [OF assms(2)] assms(1)
  by (elim disjE)
    (simp_all add: fill_defs Let_def cong: prod.case_cong option.case_cong if_cong)

lemma spaceDomainVar_override:
  assumes "override \<noteq> []"
  shows "spaceDomainVar (env\<lparr>GetCurrentContext := (current, None)\<rparr>) name override =
         spaceDomainVar (env\<lparr>GetCurrentContext := (override, None)\<rparr>) name []"
  using assms
  by (simp add: spaceDomainVar_def noSpaceConfigured_def Let_def
      cong: prod.case_cong option.case_cong if_cong)

lemma override_used:
  assumes "override \<noteq> []"
  shows "(\<forall>name pv. PredefinedVars env0 name = Some pv \<longrightarrow>
            Fill pv (env\<lparr>GetCurrentContext := (current, None)\<rparr>) override =
              Fill pv (env\<lparr>GetCurrentContext := (override, None)\<rparr>) []
          \<and> Fill pv (env\<lparr>GetCurrentContext := (current, None)\<rparr>) override =
              Fill pv (env\<lparr>GetCurrentContext := (other, None)\<rparr>) override)
       \<and> getPredefinedVar (env\<lparr>GetCurrentContext := (current, None)\<rparr>) st name override =
           getPredefinedVar (env\<lparr>GetCurrentContext := (override, None)\<rparr>) st name []
       \<and> getPredefinedVar (env\<lparr>GetCurrentContext := (current, None)\<rparr>) st name override =
           getPredefinedVar (env\<lparr>GetCurrentContext := (other, None)\<rparr>) st name override"
proof (intro conjI allI impI)
  fix n pv
  assume pv: "PredefinedVars env0 n = Some pv"
  show "Fill pv (env\<lparr>GetCurrentContext := (current, None)\<rparr>) override =
      Fill pv (env\<lparr>GetCurrentContext := (override, None)\<rparr>) []"
    using assms pv by (rule Fill_override)
  show "Fill pv (env\<lparr>GetCurrentContext := (current, None)\<rparr>) override =
      Fill pv (env\<lparr>GetCurrentContext := (other, None)\<rparr>) override"
    using Fill_override [OF assms pv, where env = env and current = current]
      Fill_override [OF assms pv, where env = env and current = other]
    by simp
next
  show "getPredefinedVar (env\<lparr>GetCurrentContext := (current, None)\<rparr>) st name override =
      getPredefinedVar (env\<lparr>GetCurrentContext := (override, None)\<rparr>) st name []"
    using spaceDomainVar_override [OF assms, where env = env and current = current and name = name]
    by (simp add: getPredefinedVar_def split: option.split)
  show "getPredefinedVar (env\<lparr>GetCurrentContext := (current, None)\<rparr>) st name override =
      getPredefinedVar (env\<lparr>GetCurrentContext := (other, None)\<rparr>) st name override"
    using spaceDomainVar_override [OF assms, where env = env and current = current and name = name]
      spaceDomainVar_override [OF assms, where env = env and current = other and name = name]
    by (simp add: getPredefinedVar_def split: option.split)
qed

text \<open>What a failed read of the current context does, whatever the override.\<close>

lemma failed_read_resolvers:
  assumes "GetCurrentContext env = (cur, Some err)"
  shows "Fill_DEVSPACE_SPACE env override = Return (None, None)"
    and "Fill_DEVSPACE_SPACE_NAMESPACE env override = Return (None, None)"
    and "Fill_DEVSPACE_USERNAME env override = Return (None, Some err)"
  using assms by (simp_all add: fill_defs)

lemma failed_read_lookup:
  assumes "GetCurrentContext env = (cur, Some err)"
    and "vars st (strings_ToUpper (unicode_ToUpper env) name) = None"
    and "strings_HasPrefix (strings_ToUpper (unicode_ToUpper env) name) ''DEVSPACE_SPACE_DOMAIN''"
    and "length ''DEVSPACE_SPACE_DOMAIN'' \<le> length name"
    and "snd (strconv_Atoi (drop (length ''DEVSPACE_SPACE_DOMAIN'') name)) = None"
  shows "getPredefinedVar env st name override =
     (Return (False, [], Some (Wrap err ''get current context'')), st)"
proof -
  from assms(5) obtain idx where
    "strconv_Atoi (drop (length ''DEVSPACE_SPACE_DOMAIN'') name) = (idx, None)"
    by (cases "strconv_Atoi (drop (length ''DEVSPACE_SPACE_DOMAIN'') name)") auto
  with assms(1-4) show ?thesis
    by (simp add: getPredefinedVar_def spaceDomainVar_def)
qed

text \<open>
  C4, as the source has it. Every context-dependent resolver and the lookup first read the
  current context. When the read succeeds and a non-empty override is supplied, the result
  is the one obtained without override in a world whose current context is the override:
  the value of the current context plays no role. When the read fails, they give up,
  whatever the override, empty or not: the resolvers of \<open>DEVSPACE_SPACE\<close> and
  \<open>DEVSPACE_SPACE_NAMESPACE\<close> return ``not available'', the resolver of
  \<open>DEVSPACE_USERNAME\<close> returns the error of the read, and the lookup of a parametric name
  whose suffix is a number returns that error wrapped with \<open>get current context\<close>.
\<close>

theorem override_replaces_current_context:
  "(override \<noteq> [] \<longrightarrow>
      (\<forall>name pv. PredefinedVars env0 name = Some pv \<longrightarrow>
            Fill pv (env\<lparr>GetCurrentContext := (current, None)\<rparr>) override =
              Fill pv (env\<lparr>GetCurrentContext := (override, None)\<rparr>) []
          \<and> Fill pv (env\<lparr>GetCurrentContext := (current, None)\<rparr>) override =
              Fill pv (env\<lparr>GetCurrentContext := (other, None)\<rparr>) override)
       \<and> getPredefinedVar (env\<lparr>GetCurrentContext := (current, None)\<rparr>) st name override =
           getPredefinedVar (env\<lparr>GetCurrentContext := (override, None)\<rparr>) st name []
       \<and> getPredefinedVar (env\<lparr>GetCurrentContext := (current, None)\<rparr>) st name override =
           getPredefinedVar (env\<lparr>GetCurrentContext := (other, None)\<rparr>) st name override)
   \<and> (GetCurrentContext env = (cur, Some err) \<longrightarrow>
      (\<forall>sp. PredefinedVars env0 ''DEVSPACE_SPACE'' = Some sp \<longrightarrow>
          Fill sp env override = Return (None, None))
       \<and> (\<forall>ns. PredefinedVars env0 ''DEVSPACE_SPACE_NAMESPACE'' = Some ns \<longrightarrow>
          Fill ns env override = Return (None, None))
       \<and> (\<forall>us. PredefinedVars env0 ''DEVSPACE_USERNAME'' = Some us \<longrightarrow>
          Fill us env override = Return (None, Some err))
       \<and> (vars st (strings_ToUpper (unicode_ToUpper env) name) = None \<and>
          strings_HasPrefix (strings_ToUpper (unicode_ToUpper env) name) ''DEVSPACE_SPACE_DOMAIN'' \<and>
          length ''DEVSPACE_SPACE_DOMAIN'' \<le> length name \<and>
          snd (strconv_Atoi (drop (length ''DEVSPACE_SPACE_DOMAIN'') name)) = None \<longrightarrow>
          getPredefinedVar env st name override =
            (Return (False, [], Some (Wrap err ''get current context'')), st)))"
proof (rule conjI)
  show "override \<noteq> [] \<longrightarrow>
      (\<forall>name pv. PredefinedVars env0 name = Some pv \<longrightarrow>
            Fill pv (env\<lparr>GetCurrentContext := (current, None)\<rparr>) override =
              Fill pv (env\<lparr>GetCurrentContext := (override, None)\<rparr>) []
          \<and> Fill pv (env\<lparr>GetCurrentContext := (current, None)\<rparr>) override =
              Fill pv (env\<lparr>GetCurrentContext := (other, None)\<rparr>) override)
       \<and> getPredefinedVar (env\<lparr>GetCurrentContext := (current, None)\<rparr>) st name override =
           getPredefinedVar (env\<lparr>GetCurrentContext := (override, None)\<rparr>) st name []
       \<and> getPredefinedVar (env\<lparr>GetCurrentContext := (current, None)\<rparr>) st name override =
           getPredefinedVar (env\<lparr>GetCurrentContext := (other, None)\<rparr>) st name override"
    by (rule impI) (rule override_used)
next
  show "GetCurrentContext env = (cur, Some err) \<longrightarrow>
      (\<forall>sp. PredefinedVars env0 ''DEVSPACE_SPACE'' = Some sp \<longrightarrow>
          Fill sp env override = Return (None, None))
       \<and> (\<forall>ns. PredefinedVars env0 ''DEVSPACE_SPACE_NAMESPACE'' = Some ns \<longrightarrow>
          Fill ns env override = Return (None, None))
       \<and> (\<forall>us. PredefinedVars env0 ''DEVSPACE_USERNAME'' = Some us \<longrightarrow>
          Fill us env override = Return (None, Some err))
       \<and> (vars st (strings_ToUpper (unicode_ToUpper env) name) = None \<and>
          strings_HasPrefix (strings_ToUpper (unicode_ToUpper env) name) ''DEVSPACE_SPACE_DOMAIN'' \<and>
          length ''DEVSPACE_SPACE_DOMAIN'' \<le> length name \<and>
          snd (strconv_Atoi (drop (length ''DEVSPACE_SPACE_DOMAIN'') name)) = None \<longrightarrow>
          getPredefinedVar env st name override =
            (Return (False, [], Some (Wrap err ''get current context'')), st))"
  proof (intro impI conjI allI)
    fix sp
    assume f: "GetCurrentContext env = (cur, Some err)"
      and "PredefinedVars env0 ''DEVSPACE_SPACE'' = Some sp"
    then show "Fill sp env override = Return (None, None)"
      by (simp add: PredefinedVars_Fill(4) failed_read_resolvers(1) [OF f])
  next
    fix ns
    assume f: "GetCurrentContext env = (cur, Some err)"
      and "PredefinedVars env0 ''DEVSPACE_SPACE_NAMESPACE'' = Some ns"
    then show "Fill ns env override = Return (None, None)"
      by (simp add: PredefinedVars_Fill(5) failed_read_resolvers(2) [OF f])
  next
    fix us
    assume f: "GetCurrentContext env = (cur, Some err)"
      and "PredefinedVars env0 ''DEVSPACE_USERNAME'' = Some us"
    then show "Fill us env override = Return (None, Some err)"
      by (simp add: PredefinedVars_Fill(6) failed_read_resolvers(3) [OF f])
  next
    assume f: "GetCurrentContext env = (cur, Some err)"
      and n: "vars st (strings_ToUpper (unicode_ToUpper env) name) = None \<and>
          strings_HasPrefix (strings_ToUpper (unicode_ToUpper env) name) ''DEVSPACE_SPACE_DOMAIN'' \<and>
          length ''DEVSPACE_SPACE_DOMAIN'' \<le> length name \<and>
          snd (strconv_Atoi (drop (length ''DEVSPACE_SPACE_DOMAIN'') name)) = None"
    from n show "getPredefinedVar env st name override =
        (Return (False, [], Some (Wrap err ''get current context'')), st)"
      by (intro failed_read_lookup [OF f]) simp_all
  qed
qed

theorem override_replaces_current_context_witness:
  "''ctx-b'' \<noteq> []
   \<and> PredefinedVars exampleEnv ''DEVSPACE_SPACE'' =
       Some \<lparr>Value = None, ErrorMessage = notASpaceMessage exampleEnv ''DEVSPACE_SPACE'',
         Fill = Fill_DEVSPACE_SPACE\<rparr>
   \<and> Fill_DEVSPACE_SPACE (exampleEnv\<lparr>GetCurrentContext := (''ctx-a'', None)\<rparr>) ''ctx-b'' =
       Fill_DEVSPACE_SPACE (exampleEnv\<lparr>GetCurrentContext := (''ctx-b'', None)\<rparr>) []
   \<and> Fill_DEVSPACE_SPACE (exampleEnv\<lparr>GetCurrentContext := (''ctx-b'', None)\<rparr>) [] =
       Return (Some ''beta'', None)
   \<and> getPredefinedVar (exampleEnv\<lparr>GetCurrentContext := (''ctx-b'', None)\<rparr>)
         (initialState exampleEnv) ''DEVSPACE_SPACE_DOMAIN1'' ''ctx-a'' =
       getPredefinedVar (exampleEnv\<lparr>GetCurrentContext := (''ctx-a'', None)\<rparr>)
         (initialState exampleEnv) ''DEVSPACE_SPACE_DOMAIN1'' []
   \<and> fst (getPredefinedVar (exampleEnv\<lparr>GetCurrentContext := (''ctx-a'', None)\<rparr>)
         (initialState exampleEnv) ''DEVSPACE_SPACE_DOMAIN1'' []) =
       Return (True, ''a1.example.com'', None)
   \<and> GetCurrentContext noContextEnv = ([], Some (External ''no current context''))
   \<and> PredefinedVars exampleEnv ''DEVSPACE_SPACE_NAMESPACE'' =
       Some \<lparr>Value = None, ErrorMessage = notASpaceMessage exampleEnv ''DEVSPACE_SPACE_NAMESPACE'',
         Fill = Fill_DEVSPACE_SPACE_NAMESPACE\<rparr>
   \<and> PredefinedVars exampleEnv ''DEVSPACE_USERNAME'' =
       Some \<lparr>Value = None, ErrorMessage = notLoggedInMessage exampleEnv,
         Fill = Fill_DEVSPACE_USERNAME\<rparr>
   \<and> Fill_DEVSPACE_SPACE noContextEnv ''ctx-b'' = Return (None, None)
   \<and> Fill_DEVSPACE_SPACE_NAMESPACE noContextEnv ''ctx-b'' = Return (None, None)
   \<and> Fill_DEVSPACE_USERNAME noContextEnv ''ctx-b'' =
       Return (None, Some (External ''no current context''))
   \<and> vars (initialState exampleEnv)
         (strings_ToUpper (unicode_ToUpper noContextEnv) ''DEVSPACE_SPACE_DOMAIN1'') = None
   \<and> strings_HasPrefix (strings_ToUpper (unicode_ToUpper noContextEnv) ''DEVSPACE_SPACE_DOMAIN1'')
         ''DEVSPACE_SPACE_DOMAIN''
   \<and> length ''DEVSPACE_SPACE_DOMAIN'' \<le> length ''DEVSPACE_SPACE_DOMAIN1''
   \<and> snd (strconv_Atoi (drop (length ''DEVSPACE_SPACE_DOMAIN'') ''DEVSPACE_SPACE_DOMAIN1'')) = None
   \<and> getPredefinedVar noContextEnv (initialState exampleEnv) ''DEVSPACE_SPACE_DOMAIN1'' ''ctx-b'' =
       (Return (False, [], Some (Wrap (External ''no current context'') ''get current context'')),
        initialState exampleEnv)"
proof -
  have h: "''ctx-b'' \<noteq> []" by simp
  have h': "''ctx-a'' \<noteq> []" by simp
  have sp: "PredefinedVars exampleEnv ''DEVSPACE_SPACE'' =
       Some \<lparr>Value = None, ErrorMessage = notASpaceMessage exampleEnv ''DEVSPACE_SPACE'',
         Fill = Fill_DEVSPACE_SPACE\<rparr>"
    by (simp add: PredefinedVars_def)
  have ns: "PredefinedVars exampleEnv ''DEVSPACE_SPACE_NAMESPACE'' =
       Some \<lparr>Value = None, ErrorMessage = notASpaceMessage exampleEnv ''DEVSPACE_SPACE_NAMESPACE'',
         Fill = Fill_DEVSPACE_SPACE_NAMESPACE\<rparr>"
    by (simp add: PredefinedVars_def)
  have us: "PredefinedVars exampleEnv ''DEVSPACE_USERNAME'' =
       Some \<lparr>Value = None, ErrorMessage = notLoggedInMessage exampleEnv,
         Fill = Fill_DEVSPACE_USERNAME\<rparr>"
    by (simp add: PredefinedVars_def)
  have v1: "Fill_DEVSPACE_SPACE (exampleEnv\<lparr>GetCurrentContext := (''ctx-b'', None)\<rparr>) [] =
       Return (Some ''beta'', None)"
    by (simp add: Fill_DEVSPACE_SPACE_def exampleEnv_def exampleConfig_def exampleProvider_def
        exampleSpaces_def)
  have v2: "fst (getPredefinedVar (exampleEnv\<lparr>GetCurrentContext := (''ctx-a'', None)\<rparr>)
         (initialState exampleEnv) ''DEVSPACE_SPACE_DOMAIN1'' []) =
       Return (True, ''a1.example.com'', None)"
    by (simp add: lookup_eval upper_eval example_defs)
  from override_replaces_current_context [where ?env0.0 = exampleEnv and env = exampleEnv
      and current = "''ctx-a''" and override = "''ctx-b''"] h sp
  have c1: "Fill_DEVSPACE_SPACE (exampleEnv\<lparr>GetCurrentContext := (''ctx-a'', None)\<rparr>) ''ctx-b'' =
       Fill_DEVSPACE_SPACE (exampleEnv\<lparr>GetCurrentContext := (''ctx-b'', None)\<rparr>) []"
    by fastforce
  from override_replaces_current_context [where env = exampleEnv and current = "''ctx-b''"
      and override = "''ctx-a''" and st = "initialState exampleEnv"
      and name = "''DEVSPACE_SPACE_DOMAIN1''"] h'
  have c2: "getPredefinedVar (exampleEnv\<lparr>GetCurrentContext := (''ctx-b'', None)\<rparr>)
         (initialState exampleEnv) ''DEVSPACE_SPACE_DOMAIN1'' ''ctx-a'' =
       getPredefinedVar (exampleEnv\<lparr>GetCurrentContext := (''ctx-a'', None)\<rparr>)
         (initialState exampleEnv) ''DEVSPACE_SPACE_DOMAIN1'' []"
    by blast
  have f: "GetCurrentContext noContextEnv = ([], Some (External ''no current context''))"
    by (simp add: noContextEnv_def)
  have n1: "vars (initialState exampleEnv)
      (strings_ToUpper (unicode_ToUpper noContextEnv) ''DEVSPACE_SPACE_DOMAIN1'') = None"
    by (simp add: upper_eval example_defs)
  have n2: "strings_HasPrefix (strings_ToUpper (unicode_ToUpper noContextEnv) ''DEVSPACE_SPACE_DOMAIN1'')
      ''DEVSPACE_SPACE_DOMAIN''"
    by (simp add: upper_eval)
  have n3: "length ''DEVSPACE_SPACE_DOMAIN'' \<le> length ''DEVSPACE_SPACE_DOMAIN1''" by simp
  have n4: "snd (strconv_Atoi (drop (length ''DEVSPACE_SPACE_DOMAIN'') ''DEVSPACE_SPACE_DOMAIN1'')) = None"
    by (simp add: strconv_Atoi_def isDigit_def)
  note fail = override_replaces_current_context [where ?env0.0 = exampleEnv and env = noContextEnv
      and override = "''ctx-b''" and cur = "[]" and err = "External ''no current context''"
      and st = "initialState exampleEnv" and name = "''DEVSPACE_SPACE_DOMAIN1''"]
  from fail f sp have d1: "Fill_DEVSPACE_SPACE noContextEnv ''ctx-b'' = Return (None, None)"
    by fastforce
  from fail f ns have d2: "Fill_DEVSPACE_SPACE_NAMESPACE noContextEnv ''ctx-b'' = Return (None, None)"
    by fastforce
  from fail f us have d3: "Fill_DEVSPACE_USERNAME noContextEnv ''ctx-b'' =
      Return (None, Some (External ''no current context''))"
    by fastforce
  from fail f n1 n2 n3 n4
  have d4: "getPredefinedVar noContextEnv (initialState exampleEnv) ''DEVSPACE_SPACE_DOMAIN1'' ''ctx-b'' =
      (Return (False, [], Some (Wrap (External ''no current context'') ''get current context'')),
       initialState exampleEnv)"
    by blast
  from h sp c1 v1 c2 v2 f ns us d1 d2 d3 n1 n2 n3 n4 d4 show ?thesis by (intro conjI)
qed

text \<open>
  C4 as the specification words it (the current context plays no role once an override is
  supplied) does not hold: with the same override, the world whose current context cannot be
  read gives ``not available'' where the example world gives the name of the space, and
  gives an error where the example world gives the domain.
\<close>

theorem override_needs_current_context_counterexample:
  "Fill_DEVSPACE_SPACE exampleEnv ''ctx-b'' = Return (Some ''beta'', None)
   \<and> Fill_DEVSPACE_SPACE noContextEnv ''ctx-b'' = Return (None, None)
   \<and> fst (getPredefinedVar exampleEnv (initialState exampleEnv) ''DEVSPACE_SPACE_DOMAIN1'' ''ctx-a'') =
       Return (True, ''a1.example.com'', None)
   \<and> fst (getPredefinedVar noContextEnv (initialState exampleEnv) ''DEVSPACE_SPACE_DOMAIN1'' ''ctx-a'') =
       Return (False, [], Some (Wrap (External ''no current context'') ''get current context''))"
  by (simp add: Fill_DEVSPACE_SPACE_def lookup_eval upper_eval example_defs noContextEnv_def)

section \<open>Case-insensitive lookup\<close>

text \<open>The bytes \<^verbatim>\<open>strconv.Atoi\<close> accepts are not touched by upper-casing.\<close>

lemma upperByte_fixes_numeric:
  assumes "isDigit c \<or> c = CHR ''-'' \<or> c = CHR ''+''"
  shows "upperByte c = c"
proof -
  from assms have "\<not> ((97::nat) \<le> of_char c \<and> (of_char c :: nat) \<le> 122)"
    by (auto simp add: isDigit_def)
  then show ?thesis by (auto simp add: upperByte_def)
qed

lemma upperByte_numeric_fixed:
  assumes "isDigit (upperByte c) \<or> upperByte c = CHR ''-'' \<or> upperByte c = CHR ''+''"
  shows "upperByte c = c"
proof (rule ccontr)
  assume "upperByte c \<noteq> c"
  then have low: "(97::nat) \<le> of_char c \<and> (of_char c :: nat) \<le> 122"
    by (simp add: upperByte_def split: if_splits)
  then have up: "(of_char (upperByte c) :: nat) = of_char c - 32"
    by (simp add: of_char_upperByte)
  from assms show False
  proof (elim disjE)
    assume "isDigit (upperByte c)"
    with up low show False unfolding isDigit_def by arith
  next
    assume "upperByte c = CHR ''-''"
    then have "(of_char (upperByte c) :: nat) = 45" by simp
    with up low show False by arith
  next
    assume "upperByte c = CHR ''+''"
    then have "(of_char (upperByte c) :: nat) = 43" by simp
    with up low show False by arith
  qed
qed

lemma numeric_upper_eq:
  assumes "map upperByte s1 = map upperByte s2"
    and "\<forall>c \<in> set s1. isDigit c \<or> c = CHR ''-'' \<or> c = CHR ''+''"
  shows "s1 = s2"
  using assms
proof (induction s1 arbitrary: s2)
  case Nil
  then show ?case by simp
next
  case (Cons c s1)
  from Cons.prems(1) obtain d s2' where s2: "s2 = d # s2'" by (cases s2) auto
  with Cons.prems(1) have hd: "upperByte c = upperByte d" and tl: "map upperByte s1 = map upperByte s2'"
    by auto
  from Cons.prems(2) have c: "isDigit c \<or> c = CHR ''-'' \<or> c = CHR ''+''" by simp
  then have "upperByte c = c" by (rule upperByte_fixes_numeric)
  with hd c have "upperByte d = d"
    by (intro upperByte_numeric_fixed) auto
  with hd \<open>upperByte c = c\<close> have "c = d" by simp
  moreover from Cons.IH [OF tl] Cons.prems(2) have "s1 = s2'" by simp
  ultimately show ?case using s2 by simp
qed

lemma Atoi_ok_numeric:
  assumes "snd (strconv_Atoi s) = None"
  shows "\<forall>c \<in> set s. isDigit c \<or> c = CHR ''-'' \<or> c = CHR ''+''"
proof (cases s)
  case Nil
  then show ?thesis by simp
next
  case (Cons c cs)
  with assms show ?thesis
    by (auto simp add: strconv_Atoi_def Let_def list_all_iff split: if_splits)
qed

lemma Atoi_upper_eq:
  assumes "map upperByte s1 = map upperByte s2" and "snd (strconv_Atoi s1) = None"
  shows "s1 = s2"
  using assms(1) Atoi_ok_numeric [OF assms(2)] by (rule numeric_upper_eq)










text \<open>
  The relation is as tight as it reads: it tells errors with another count or another
  index apart, and errors that quote the name of another lookup.
\<close>

lemma sameErrorUpToName_tight:
  "\<not> sameErrorUpToName ''a'' ''A''
       (Errorf ''Error loading %s: Space has %d domains but domain with number %d was requested''
          [S ''a'', D 2, D 3])
       (Errorf ''Error loading %s: Space has %d domains but domain with number %d was requested''
          [S ''A'', D 0, D 77])"
  "\<not> sameErrorUpToName ''a'' ''A''
       (Errorf ''Error loading %s: Space has %d domains but domain with number %d was requested''
          [S ''a'', D 2, D 3])
       (Errorf ''Error loading %s: Space has %d domains but domain with number %d was requested''
          [S ''b'', D 2, D 3])"
  by (simp_all add: sameErrorUpToName_def)

text \<open>
  Equal upper-case forms alone do not give as much. The upper-case form of \<open>longSName\<close>
  is \<open>DEVSPACE_SPACE_DOMAIN1\<close>, yet the suffix is cut from the 23 bytes of the name itself,
  at byte 21: it is \<open>n1\<close>, no number, where the lookup of \<open>DEVSPACE_SPACE_DOMAIN1\<close> finds
  the first domain.
\<close>

lemma long_s_variant_differs:
  "strings_ToUpper (unicode_ToUpper longSEnv) longSName =
     strings_ToUpper (unicode_ToUpper longSEnv) ''DEVSPACE_SPACE_DOMAIN1''
   \<and> fst (getPredefinedVar longSEnv (initialState exampleEnv) ''DEVSPACE_SPACE_DOMAIN1'' []) =
       Return (True, ''a1.example.com'', None)
   \<and> fst (getPredefinedVar longSEnv (initialState exampleEnv) longSName []) =
       Return (False, [],
         Some (Errorf ''Error parsing variable %s: %v''
           [S longSName, V (NumError ''Atoi'' ''n1'' ErrSyntax)]))"
  by (simp add: longSEnv_def longSName_def lookup_eval upper_eval example_defs)


section \<open>The index of a parametric name\<close>

text \<open>
  C1 on the example of the specification, a space with two domains: the indices 1 and 2
  give the two URLs, the index 3 gives the error with the counts 2 and 3, and a suffix that
  is no number gives the parse error. The index 0 gives no error: \<open>len(Domains) <= idx-1\<close>
  is \<open>2 <= -1\<close>, false, and \<^verbatim>\<open>Domains[-1]\<close> panics.
\<close>

theorem index_zero_panics:
  "fst (getPredefinedVar exampleEnv (initialState exampleEnv) ''DEVSPACE_SPACE_DOMAIN0'' []) =
     Panic (IndexOutOfRange (- 1) 2)
   \<and> fst (getPredefinedVar exampleEnv (initialState exampleEnv) ''DEVSPACE_SPACE_DOMAIN1'' []) =
       Return (True, ''a1.example.com'', None)
   \<and> fst (getPredefinedVar exampleEnv (initialState exampleEnv) ''DEVSPACE_SPACE_DOMAIN2'' []) =
       Return (True, ''a2.example.com'', None)
   \<and> fst (getPredefinedVar exampleEnv (initialState exampleEnv) ''DEVSPACE_SPACE_DOMAIN3'' []) =
       Return (False, [],
         Some (Errorf ''Error loading %s: Space has %d domains but domain with number %d was requested''
           [S ''DEVSPACE_SPACE_DOMAIN3'', D 2, D 3]))
   \<and> fst (getPredefinedVar exampleEnv (initialState exampleEnv) ''DEVSPACE_SPACE_DOMAINx'' []) =
       Return (False, [],
         Some (Errorf ''Error parsing variable %s: %v''
           [S ''DEVSPACE_SPACE_DOMAINx'', V (NumError ''Atoi'' ''x'' ErrSyntax)]))"
  by (simp add: lookup_eval upper_eval example_defs)

text \<open>The general form: what the branch returns once the space of the context is found.\<close>

lemma digitsValue_nonneg:
  assumes "list_all isDigit ds" and "0 \<le> n"
  shows "0 \<le> digitsValue n ds"
  using assms
proof (induction ds arbitrary: n)
  case Nil
  then show ?case by simp
next
  case (Cons c ds)
  from Cons.prems(1) have "(48::nat) \<le> of_char c" by (simp add: isDigit_def)
  then have "(48::int) \<le> int (of_char c)" by simp
  then have "(48::int) \<le> of_char c" by (simp only: of_nat_of_char)
  with Cons.prems(2) have "0 \<le> n * 10 + (of_char c - 48)" by simp
  with Cons.IH [of "n * 10 + (of_char c - 48)"] Cons.prems(1) show ?case by simp
qed

lemma Atoi_range:
  assumes "strconv_Atoi s = (idx, None)"
  shows "- (2 ^ 63) \<le> idx \<and> idx < 2 ^ 63"
proof -
  let ?ds = "if s \<noteq> [] \<and> (hd s = CHR ''-'' \<or> hd s = CHR ''+'') then tl s else s"
  from assms have d: "list_all isDigit ?ds"
    by (auto simp add: strconv_Atoi_def Let_def split: if_splits)
  then have "0 \<le> digitsValue 0 ?ds" by (intro digitsValue_nonneg) simp_all
  with assms show ?thesis
    by (auto simp add: strconv_Atoi_def Let_def split: if_splits)
qed

lemma wrap64_id:
  assumes "- (2 ^ 63) \<le> x" and "x < 2 ^ 63"
  shows "wrap64 x = x"
proof -
  from assms have "(x + 2 ^ 63) mod 2 ^ 64 = x + 2 ^ 63"
    by (intro mod_pos_pos_trivial) simp_all
  then show ?thesis by (simp add: wrap64_def)
qed

lemma spaceDomainVar_parse_error:
  assumes "length ''DEVSPACE_SPACE_DOMAIN'' \<le> length name"
    and "strconv_Atoi (drop (length ''DEVSPACE_SPACE_DOMAIN'') name) = (idx, Some err)"
  shows "spaceDomainVar env name ctx =
     Return (False, [], Some (Errorf ''Error parsing variable %s: %v'' [S name, V err]))"
  using assms by (simp add: spaceDomainVar_def)

lemma spaceDomainVar_index:
  assumes "length ''DEVSPACE_SPACE_DOMAIN'' \<le> length name"
    and "strconv_Atoi (drop (length ''DEVSPACE_SPACE_DOMAIN'') name) = (idx, None)"
    and "GetCurrentContext env = (cur, None)"
    and "GetSpaceID env (if ctx \<noteq> [] then ctx else cur) = (spaceID, providerName, None)"
    and "ParseProviderConfig env = (cloudConfigData, None)"
    and "GetProvider env cloudConfigData providerName = Some provider"
    and "Spaces provider = Some spaces"
    and "spaces spaceID = Some sc"
    and "int (length (Domains (Space sc))) < 2 ^ 63"
  shows "spaceDomainVar env name ctx =
     (if int (length (Domains (Space sc))) < idx \<or> idx = - (2 ^ 63)
      then Return (False, [],
        Some (Errorf ''Error loading %s: Space has %d domains but domain with number %d was requested''
          [S name, D (int (length (Domains (Space sc)))), D idx]))
      else if 1 \<le> idx then Return (True, URL (Domains (Space sc) ! nat (idx - 1)), None)
      else Panic (IndexOutOfRange (idx - 1) (length (Domains (Space sc)))))"
proof (cases "idx = - (2 ^ 63)")
  case True
  then have "wrap64 (idx - 1) = 2 ^ 63 - 1" by (simp add: wrap64_def)
  with assms True show ?thesis by (simp add: spaceDomainVar_def Let_def)
next
  case False
  with Atoi_range [OF assms(2)] have "wrap64 (idx - 1) = idx - 1"
    by (intro wrap64_id) simp_all
  with assms False show ?thesis by (auto simp add: spaceDomainVar_def Let_def)
qed

end
